theory Spec2Isabelle
  imports Complex_Main "HOL-Library.Sublist" "HOL-Library.AList"
begin

section \<open>Topic detection and topic-code mapping (topic\_detector.py)\<close>

text \<open>
  The development embeds \<^verbatim>\<open>server/python-tools/topic_detector.py\<close>: the keyword
  dictionary \<^verbatim>\<open>TOPIC_MAPPING\<close>, the mapper \<^verbatim>\<open>_map_to_code\<close>, the
  orchestrator \<^verbatim>\<open>fit_and_detect\<close> and the command-line entry point \<^verbatim>\<open>main\<close>,
  and the command \<^verbatim>\<open>embed_text\<close> of \<^verbatim>\<open>nlp_runner.py\<close>.
  The third-party libraries (sentence-transformers, BERTopic, the JSON decoder) and the
  interpreter's Unicode case tables are parameters of the model: functions that return a
  value or raise.
\<close>

subsection \<open>Strings\<close>

text \<open>
  A Python \<^verbatim>\<open>str\<close> is represented by its UTF-8 encoding, a list of bytes. The bytes
  below 128 are the ASCII characters; a character beyond ASCII is a lead byte followed by
  continuation bytes, all of them 128 or above.
\<close>

definition is_ascii :: "char \<Rightarrow> bool" where
  "is_ascii c = (\<not> digit7 c)"

definition is_continuation :: "char \<Rightarrow> bool" where
  "is_continuation c = (digit7 c \<and> \<not> digit6 c)"

text \<open>
  \<^verbatim>\<open>str.lower()\<close>. On a string of ASCII characters it moves the letters \<^verbatim>\<open>A\<close> to
  \<^verbatim>\<open>Z\<close> to \<^verbatim>\<open>a\<close> to \<^verbatim>\<open>z\<close> and keeps every other character. On a string
  with a character beyond ASCII the result is given by the Unicode case tables of the
  interpreter (with them \<^verbatim>\<open>KELVIN SIGN\<close> becomes \<^verbatim>\<open>k\<close>, for instance); these are
  the parameter \<open>ul\<close>, the lowercasing of such strings.
\<close>

definition lower_char :: "char \<Rightarrow> char" where
  "lower_char c =
     (case map_of (zip ''ABCDEFGHIJKLMNOPQRSTUVWXYZ'' ''abcdefghijklmnopqrstuvwxyz'') c of
        Some l \<Rightarrow> l
      | None \<Rightarrow> c)"

definition lower :: "(string \<Rightarrow> string) \<Rightarrow> string \<Rightarrow> string" where
  "lower ul s = (if list_all is_ascii s then map lower_char s else ul s)"

text \<open>
  Python's \<^verbatim>\<open>keyword in label\<close> on strings holds when the keyword occurs as a
  contiguous run of the label; that is the relation \<^const>\<open>sublist\<close>. Every keyword
  of the dictionary is ASCII, and no ASCII byte occurs inside the encoding of a character
  beyond ASCII, so the relation on the encodings is the relation on the strings.
\<close>

text \<open>\<^verbatim>\<open>sep.join(parts)\<close>.\<close>

fun join :: "string \<Rightarrow> string list \<Rightarrow> string" where
  "join sep [] = []"
| "join sep [x] = x"
| "join sep (x # y # ys) = x @ sep @ join sep (y # ys)"

subsection \<open>The keyword dictionary\<close>

text \<open>
  \<^verbatim>\<open>TOPIC_MAPPING\<close> is a dict literal with pairwise distinct keys; iterating its
  \<^verbatim>\<open>items()\<close> yields the pairs in the order they are written, so the dictionary is the
  list of its items.
\<close>

definition TOPIC_MAPPING :: "(string \<times> string) list" where
  "TOPIC_MAPPING =
    [(''kailah'', ''KAILAH''),
     (''daughter'', ''KAILAH''),
     (''child'', ''KAILAH''),
     (''baby'', ''KAILAH''),
     (''parenting'', ''VISITS''),
     (''custody'', ''VISITS''),
     (''visitation'', ''VISITS''),
     (''visit'', ''VISITS''),
     (''call'', ''CALLS''),
     (''phone'', ''CALLS''),
     (''contact'', ''CALLS''),
     (''school'', ''SCHOOL''),
     (''education'', ''SCHOOL''),
     (''teacher'', ''SCHOOL''),
     (''money'', ''MONEY''),
     (''financial'', ''MONEY''),
     (''bills'', ''MONEY''),
     (''rent'', ''MONEY''),
     (''payment'', ''MONEY''),
     (''health'', ''HEALTH''),
     (''medical'', ''HEALTH''),
     (''doctor'', ''HEALTH''),
     (''hospital'', ''HEALTH''),
     (''medication'', ''HEALTH''),
     (''alcohol'', ''SUBST''),
     (''drug'', ''SUBST''),
     (''adderall'', ''SUBST''),
     (''substance'', ''SUBST''),
     (''drunk'', ''SUBST''),
     (''cheat'', ''INFID''),
     (''affair'', ''INFID''),
     (''infidelity'', ''INFID''),
     (''loyal'', ''INFID''),
     (''threat'', ''THREAT''),
     (''hurt'', ''THREAT''),
     (''kill'', ''THREAT''),
     (''harm'', ''THREAT'')]"

subsection \<open>The mapper\<close>

text \<open>
  The loop \<^verbatim>\<open>for keyword, code in TOPIC_MAPPING.items()\<close> of \<^verbatim>\<open>_map_to_code\<close>:
  it returns at the first keyword found in the label, and falls through to
  \<^verbatim>\<open>'GENRL'\<close>.
\<close>

fun scan_items :: "(string \<times> string) list \<Rightarrow> string \<Rightarrow> string" where
  "scan_items [] label_lower = ''GENRL''"
| "scan_items ((keyword, code) # items) label_lower =
     (if sublist keyword label_lower then code else scan_items items label_lower)"

definition map_to_code :: "(string \<Rightarrow> string) \<Rightarrow> string \<Rightarrow> string" where
  "map_to_code ul label =
     (let label_lower = lower ul label in scan_items TOPIC_MAPPING label_lower)"

subsection \<open>The libraries\<close>

text \<open>
  An exception is identified by its text. A library call returns \<open>Inr\<close> its value or
  \<open>Inl\<close> the exception it raises.
\<close>

type_synonym exc = string

type_synonym embedding = "real list"

text \<open>
  \<^verbatim>\<open>SentenceTransformer.encode\<close>: the array of vectors for a list of messages. The
  orchestrator never looks into a message, so the type of messages is a parameter:
  \<^verbatim>\<open>main\<close> passes on whatever JSON values the decoded list holds.
\<close>

type_synonym 'm encoder = "'m list \<Rightarrow> exc + embedding list"

text \<open>
  The topic ids that \<^verbatim>\<open>fit_transform\<close> returns are a sequence the orchestrator
  iterates over and then calls \<^verbatim>\<open>.tolist()\<close> on. A numpy array has that method; a
  Python list, which is what BERTopic's \<^verbatim>\<open>fit_transform\<close> returns, has not, and the
  call raises \<^verbatim>\<open>AttributeError\<close>.
\<close>

datatype topic_ids = NdArray "int list" | PyList "int list"

fun ids :: "topic_ids \<Rightarrow> int list" where
  "ids (NdArray xs) = xs"
| "ids (PyList xs) = xs"

fun ids_tolist :: "topic_ids \<Rightarrow> exc + int list" where
  "ids_tolist (NdArray xs) = Inr xs"
| "ids_tolist (PyList xs) = Inl ''AttributeError''"

text \<open>
  The methods of a BERTopic instance that the orchestrator calls, over the instance's
  internal state \<open>'cs\<close>. \<^verbatim>\<open>fit_transform\<close> returns the topic ids (the
  probabilities it also returns are never read) and leaves the instance in a new state;
  \<^verbatim>\<open>get_topic_info\<close> is reduced to the column \<^verbatim>\<open>Topic\<close> of its rows, in row order;
  \<^verbatim>\<open>get_topic\<close> yields the ranked (word, score) pairs of a topic, or \<^verbatim>\<open>False\<close>
  (here \<open>None\<close>). The two queries are taken to return once a fit has succeeded.
\<close>

record ('m, 'cs) BERTopic =
  fit_transform :: "'cs \<Rightarrow> 'm list \<Rightarrow> exc + (topic_ids \<times> 'cs)"
  get_topic_info :: "'cs \<Rightarrow> int list"
  get_topic :: "'cs \<Rightarrow> int \<Rightarrow> (string \<times> real) list option"

subsection \<open>The detector\<close>

record ('m, 'cs) TopicDetector =
  embedding_model :: "'m encoder"
  topic_model :: 'cs
  is_fitted :: bool

text \<open>The dict that \<^verbatim>\<open>fit_and_detect\<close> returns. \<^verbatim>\<open>topic_labels\<close> is a dict filled
  by assignment: an association list updated in place, a new key appended.\<close>

record detection =
  topics :: "int list"
  topic_labels :: "(int \<times> string) list"
  topic_codes :: "string list"
  embeddings :: "embedding list"

text \<open>
  The loop over \<^verbatim>\<open>topic_info.iterrows()\<close>: the outlier row is skipped, a topic whose
  word list is falsy (\<^verbatim>\<open>False\<close> or empty) gets no label, any other topic is labelled
  with its first three words joined by an underscore.
\<close>

fun label_rows ::
  "(int \<Rightarrow> (string \<times> real) list option) \<Rightarrow> int list \<Rightarrow> (int \<times> string) list \<Rightarrow> (int \<times> string) list"
where
  "label_rows get_words [] labels = labels"
| "label_rows get_words (topic_id # rows) labels =
     (if topic_id = - 1 then label_rows get_words rows labels
      else (case get_words topic_id of
              None \<Rightarrow> label_rows get_words rows labels
            | Some topic_words \<Rightarrow>
                if topic_words \<noteq> [] then
                  label_rows get_words rows
                    (AList.update topic_id (join ''_'' (map fst (take 3 topic_words))) labels)
                else label_rows get_words rows labels))"

text \<open>The loop \<^verbatim>\<open>for topic_id in topics\<close> that appends one code per message.\<close>

fun code_topics ::
  "(string \<Rightarrow> string) \<Rightarrow> (int \<times> string) list \<Rightarrow> int list \<Rightarrow> string list" where
  "code_topics ul labels [] = []"
| "code_topics ul labels (topic_id # rest) =
     (if topic_id = - 1 then ''GENRL''
      else (let label = (case map_of labels topic_id of None \<Rightarrow> [] | Some l \<Rightarrow> l)
            in map_to_code ul label))
     # code_topics ul labels rest"

text \<open>
  \<^verbatim>\<open>fit_and_detect\<close> returns the dict and the detector as the call leaves it; an
  exception of the embedder or the clusterer is not caught and ends the call. In the
  clustering branch the embeddings are computed before the dict is built, and building
  the dict starts with \<^verbatim>\<open>topics.tolist()\<close>.
\<close>

definition fit_and_detect ::
  "(string \<Rightarrow> string) \<Rightarrow> ('m, 'cs) BERTopic \<Rightarrow> ('m, 'cs) TopicDetector \<Rightarrow> 'm list
     \<Rightarrow> exc + (detection \<times> ('m, 'cs) TopicDetector)"
where
  "fit_and_detect ul bt self messages =
     (if length messages < 2 then
        (case embedding_model self messages of
           Inl e \<Rightarrow> Inl e
         | Inr vectors \<Rightarrow>
             Inr (\<lparr>topics = replicate (length messages) (- 1),
                   topic_labels = [],
                   topic_codes = replicate (length messages) ''GENRL'',
                   embeddings = vectors\<rparr>, self))
      else
        (case fit_transform bt (topic_model self) messages of
           Inl e \<Rightarrow> Inl e
         | Inr (tps, fitted) \<Rightarrow>
             (let self' = self\<lparr>topic_model := fitted, is_fitted := True\<rparr>;
                  topic_info = get_topic_info bt fitted;
                  labels = label_rows (get_topic bt fitted) topic_info [];
                  codes = code_topics ul labels (ids tps)
              in (case embedding_model self' messages of
                    Inl e \<Rightarrow> Inl e
                  | Inr vectors \<Rightarrow>
                      (case ids_tolist tps of
                         Inl e \<Rightarrow> Inl e
                       | Inr topic_list \<Rightarrow>
                           Inr (\<lparr>topics = topic_list,
                                 topic_labels = labels,
                                 topic_codes = codes,
                                 embeddings = vectors\<rparr>, self'))))))"

text \<open>The Topic Code set of the specification's data model.\<close>

definition topic_code_set :: "string set" where
  "topic_code_set =
     {''KAILAH'', ''VISITS'', ''CALLS'', ''SCHOOL'', ''MONEY'', ''HEALTH'', ''SUBST'',
      ''INFID'', ''THREAT'', ''GENRL''}"

subsection \<open>The command line\<close>

text \<open>The values \<^verbatim>\<open>json.loads\<close> produces.\<close>

datatype json =
    JNull
  | JBool bool
  | JInt int
  | JFloat real
  | JStr string
  | JArr "json list"
  | JObj "(string \<times> json) list"

text \<open>The keyword arguments \<^verbatim>\<open>TopicDetector.__init__\<close> passes to \<^verbatim>\<open>BERTopic\<close>.\<close>

record 'm bertopic_args =
  arg_embedding_model :: "'m encoder"
  min_topic_size :: nat
  nr_topics :: string
  calculate_probabilities :: bool
  verbose :: bool

text \<open>
  What \<^verbatim>\<open>json.loads\<close> does with an argument: it raises \<^verbatim>\<open>JSONDecodeError\<close> with
  a text, it raises another exception (\<^verbatim>\<open>RecursionError\<close> on deep nesting,
  \<^verbatim>\<open>ValueError\<close> on an integer beyond the digit limit), or it returns a value.
\<close>

datatype decoding = JSONDecodeError string | DecoderRaises exc | Decoded json

text \<open>
  What the process finds installed: the JSON decoder, the Unicode case tables, the
  constructor of the embedding model by model name, the constructor of the topic model,
  and the topic model's methods.
\<close>

record 'cs platform =
  json_loads :: "string \<Rightarrow> decoding"
  unicode_lower :: "string \<Rightarrow> string"
  SentenceTransformer :: "string \<Rightarrow> exc + json encoder"
  BERTopic_new :: "json bertopic_args \<Rightarrow> exc + 'cs"
  bertopic :: "(json, 'cs) BERTopic"

text \<open>\<^verbatim>\<open>TopicDetector.__init__\<close>: neither constructor call is guarded.\<close>

definition TopicDetector_init :: "'cs platform \<Rightarrow> exc + (json, 'cs) TopicDetector" where
  "TopicDetector_init env =
     (case SentenceTransformer env ''all-MiniLM-L6-v2'' of
        Inl e \<Rightarrow> Inl e
      | Inr model \<Rightarrow>
          (case BERTopic_new env
                  \<lparr>arg_embedding_model = model, min_topic_size = 2, nr_topics = ''auto'',
                   calculate_probabilities = False, verbose = False\<rparr> of
             Inl e \<Rightarrow> Inl e
           | Inr tm \<Rightarrow> Inr \<lparr>embedding_model = model, topic_model = tm, is_fitted = False\<rparr>))"

text \<open>
  A run of \<^verbatim>\<open>main\<close> is observed through what it prints on standard output, its exit
  status, the exception that ended it if one was left uncaught (the interpreter then
  prints a traceback on standard error and exits with status 1), and the calls it made
  into the libraries and the detector, in order.
\<close>

datatype printed = ErrorObject string | ResultObject detection

datatype step = JsonLoads string | NewTopicDetector | FitAndDetect "json list"

record run =
  stdout :: "printed list"
  exit_status :: nat
  uncaught :: "exc option"
  steps :: "step list"

definition main :: "'cs platform \<Rightarrow> string list \<Rightarrow> run" where
  "main env argv =
     (if length argv < 2 then
        \<lparr>stdout = [ErrorObject ''No messages provided''], exit_status = 1,
         uncaught = None, steps = []\<rparr>
      else
        (case json_loads env (argv ! 1) of
           JSONDecodeError e \<Rightarrow>
             \<lparr>stdout = [ErrorObject (''Invalid JSON: '' @ e)], exit_status = 1,
              uncaught = None, steps = [JsonLoads (argv ! 1)]\<rparr>
         | DecoderRaises e \<Rightarrow>
             \<lparr>stdout = [], exit_status = 1, uncaught = Some e,
              steps = [JsonLoads (argv ! 1)]\<rparr>
         | Decoded (JArr messages) \<Rightarrow>
             (case TopicDetector_init env of
                Inl e \<Rightarrow>
                  \<lparr>stdout = [], exit_status = 1, uncaught = Some e,
                   steps = [JsonLoads (argv ! 1), NewTopicDetector]\<rparr>
              | Inr detector \<Rightarrow>
                  (case fit_and_detect (unicode_lower env) (bertopic env) detector messages of
                     Inl e \<Rightarrow>
                       \<lparr>stdout = [], exit_status = 1, uncaught = Some e,
                        steps = [JsonLoads (argv ! 1), NewTopicDetector, FitAndDetect messages]\<rparr>
                   | Inr (result, _) \<Rightarrow>
                       \<lparr>stdout = [ResultObject result], exit_status = 0, uncaught = None,
                        steps = [JsonLoads (argv ! 1), NewTopicDetector, FitAndDetect messages]\<rparr>))
         | Decoded _ \<Rightarrow>
             \<lparr>stdout = [ErrorObject ''Messages must be a list''], exit_status = 1,
              uncaught = None, steps = [JsonLoads (argv ! 1)]\<rparr>))"


subsection \<open>The command embed\_text of nlp\_runner.py\<close>

text \<open>
  A numpy array as \<^verbatim>\<open>embed_text\<close> reads it: its shape and its \<^verbatim>\<open>tolist()\<close>.
  A loaded sentence model is its method \<^verbatim>\<open>encode(texts, convert_to_numpy=True)\<close>.
\<close>

record ndarray =
  shape :: "nat list"
  tolist :: json

type_synonym sentence_model = "json \<Rightarrow> exc + ndarray"

text \<open>
  The package \<^verbatim>\<open>sentence_transformers\<close> as the process finds it: the import raises
  \<^verbatim>\<open>ImportError\<close>, or it provides the class. Constructing the class with a model
  name raises \<^verbatim>\<open>ImportError\<close>, raises another exception, or returns the model.
\<close>

datatype construction = RaisesImportError | Raises exc | Model sentence_model

datatype st_package = ImportError | Installed "string \<Rightarrow> construction"

text \<open>
  \<^verbatim>\<open>get_sentence_model\<close> over the module global \<^verbatim>\<open>_sentence_model\<close>; the value it
  returns is the value it leaves in the global. The \<^verbatim>\<open>try\<close> block holds the import
  and the constructor call, and only \<^verbatim>\<open>ImportError\<close> is caught.
\<close>

definition get_sentence_model ::
  "st_package \<Rightarrow> sentence_model option \<Rightarrow> exc + sentence_model option" where
  "get_sentence_model pkg cached =
     (case cached of
        Some m \<Rightarrow> Inr (Some m)
      | None \<Rightarrow>
          (case pkg of
             ImportError \<Rightarrow> Inr None
           | Installed cls \<Rightarrow>
               (case cls ''all-MiniLM-L6-v2'' of
                  RaisesImportError \<Rightarrow> Inr None
                | Raises e \<Rightarrow> Inl e
                | Model m \<Rightarrow> Inr (Some m))))"

text \<open>The truth value of a decoded JSON value.\<close>

fun truthy :: "json \<Rightarrow> bool" where
  "truthy JNull = False"
| "truthy (JBool b) = b"
| "truthy (JInt i) = (i \<noteq> 0)"
| "truthy (JFloat x) = (x \<noteq> 0)"
| "truthy (JStr s) = (s \<noteq> [])"
| "truthy (JArr xs) = (xs \<noteq> [])"
| "truthy (JObj kvs) = (kvs \<noteq> [])"

text \<open>
  The characters of a string: every byte that is not a continuation byte starts a
  character, which takes the continuation bytes that follow it.
\<close>

function characters :: "string \<Rightarrow> string list" where
  "characters [] = []"
| "characters (c # cs) =
     (c # takeWhile is_continuation cs) # characters (dropWhile is_continuation cs)"
  by pat_completeness auto
termination
  by (relation "measure length") (auto simp: le_imp_less_Suc length_dropWhile_le)

text \<open>
  What \<^verbatim>\<open>for _ in texts\<close> runs over: the elements of a list, the characters of a
  string, the keys of a dict; any other value is not iterable.
\<close>

fun py_iter :: "json \<Rightarrow> exc + json list" where
  "py_iter (JArr xs) = Inr xs"
| "py_iter (JStr s) = Inr (map JStr (characters s))"
| "py_iter (JObj kvs) = Inr (map (\<lambda>kv. JStr (fst kv)) kvs)"
| "py_iter _ = Inl ''TypeError''"

text \<open>The first two lines of \<^verbatim>\<open>embed_text\<close>, on the dict of arguments.\<close>

definition requested_texts :: "(string \<rightharpoonup> json) \<Rightarrow> json" where
  "requested_texts args =
     (let text = (case args ''text'' of None \<Rightarrow> JStr [] | Some v \<Rightarrow> v)
      in (case args ''texts'' of
            None \<Rightarrow> if truthy text then JArr [text] else JArr []
          | Some v \<Rightarrow> v))"

record embed_reply =
  reply_embeddings :: json
  reply_model :: string
  reply_dimensions :: nat

definition embed_text ::
  "st_package \<Rightarrow> sentence_model option \<Rightarrow> (string \<rightharpoonup> json)
     \<Rightarrow> exc + (embed_reply \<times> sentence_model option)" where
  "embed_text pkg cached args =
     (let texts = requested_texts args
      in (case get_sentence_model pkg cached of
            Inl e \<Rightarrow> Inl e
          | Inr None \<Rightarrow>
              (case py_iter texts of
                 Inl e \<Rightarrow> Inl e
               | Inr items \<Rightarrow>
                   Inr (\<lparr>reply_embeddings =
                           JArr (map (\<lambda>_. JArr (replicate 384 (JFloat 0))) items),
                         reply_model = ''unavailable'',
                         reply_dimensions = 384\<rparr>, None))
          | Inr (Some m) \<Rightarrow>
              (case m texts of
                 Inl e \<Rightarrow> Inl e
               | Inr arr \<Rightarrow>
                   Inr (\<lparr>reply_embeddings = tolist arr,
                         reply_model = ''all-MiniLM-L6-v2'',
                         reply_dimensions =
                           (if length (shape arr) > 1 then shape arr ! 1 else 384)\<rparr>,
                        Some m))))"

subsection \<open>Stubs\<close>

text \<open>
  Deterministic stand-ins for the libraries, used to run the model on concrete inputs.
  The stub embedder returns one vector of 384 zeros per message. The stub clusterers
  hold one bit of state (fitted or not) and know one message list each.
\<close>

definition stub_encoder :: "'m encoder" where
  "stub_encoder messages = Inr (map (\<lambda>_. replicate 384 0) messages)"

definition scenario_messages :: "string list" where
  "scenario_messages =
     [''I saw my daughter yesterday'', ''School call about Kailah'', ''Rent payment due'', ''x'']"

definition scenario_clusterer :: "(string, bool) BERTopic" where
  "scenario_clusterer =
     \<lparr>fit_transform =
        (\<lambda>cs messages.
           if messages = scenario_messages then Inr (NdArray [0, 0, 1, - 1], True)
           else Inl ''ValueError''),
      get_topic_info = (\<lambda>cs. if cs then [- 1, 0, 1] else []),
      get_topic =
        (\<lambda>cs topic_id.
           if cs \<and> topic_id = 0 then
             Some [(''kailah'', 0.9), (''school'', 0.5), (''daughter'', 0.3)]
           else if cs \<and> topic_id = 1 then Some [(''rent'', 0.8), (''payment'', 0.6)]
           else None)\<rparr>"

definition bare_clusterer :: "(string, bool) BERTopic" where
  "bare_clusterer =
     \<lparr>fit_transform =
        (\<lambda>cs messages.
           if messages = [''a'', ''b'', ''c''] then Inr (NdArray [2, 2, - 1], True)
           else Inl ''ValueError''),
      get_topic_info = (\<lambda>cs. if cs then [- 1, 2] else []),
      get_topic = (\<lambda>cs topic_id. if cs \<and> topic_id = 2 then Some [] else None)\<rparr>"

text \<open>
  The scenario's clusterer with the return type of BERTopic's own \<^verbatim>\<open>fit_transform\<close>:
  the same topic ids, as a Python list.
\<close>

definition list_clusterer :: "(string, bool) BERTopic" where
  "list_clusterer =
     scenario_clusterer
       \<lparr>fit_transform :=
          (\<lambda>cs messages.
             if messages = scenario_messages then Inr (PyList [0, 0, 1, - 1], True)
             else Inl ''ValueError'')\<rparr>"

text \<open>
  Case tables that know one string beyond ASCII: \<^verbatim>\<open>KELVIN SIGN\<close> (bytes E2 84 AA)
  followed by \<^verbatim>\<open>ILL\<close>, whose lowercase is \<^verbatim>\<open>kill\<close>.
\<close>

definition kelvin_ILL :: string where
  "kelvin_ILL = [CHR 0xE2, CHR 0x84, CHR 0xAA] @ ''ILL''"

definition stub_lower :: "string \<Rightarrow> string" where
  "stub_lower s = (if s = kelvin_ILL then ''kill'' else s)"

definition stub_detector :: "(string, bool) TopicDetector" where
  "stub_detector = \<lparr>embedding_model = stub_encoder, topic_model = False, is_fitted = False\<rparr>"

text \<open>
  A stub platform for \<^verbatim>\<open>main\<close>: a decoder that knows a few argument texts, the
  stub case tables, an embedder that accepts strings only, and a clusterer that marks every message an outlier.
  The offline platform is the same with an embedding model that cannot be loaded.
\<close>

definition stub_json_loads :: "string \<Rightarrow> decoding" where
  "stub_json_loads s =
     (if s = ''[]'' then Decoded (JArr [])
      else if s = ''[1]'' then Decoded (JArr [JInt 1])
      else if s = ''{}'' then Decoded (JObj [])
      else if s = ''42'' then Decoded (JInt 42)
      else JSONDecodeError ''Expecting value: line 1 column 1 (char 0)'')"

fun is_str :: "json \<Rightarrow> bool" where
  "is_str (JStr _) = True"
| "is_str _ = False"

definition strict_encoder :: "json encoder" where
  "strict_encoder messages =
     (if list_all is_str messages then Inr (map (\<lambda>_. replicate 384 0) messages)
      else Inl ''TypeError'')"

definition stub_platform :: "bool platform" where
  "stub_platform =
     \<lparr>json_loads = stub_json_loads,
      unicode_lower = stub_lower,
      SentenceTransformer = (\<lambda>name. Inr strict_encoder),
      BERTopic_new = (\<lambda>args. Inr False),
      bertopic =
        \<lparr>fit_transform = (\<lambda>cs messages. Inr (NdArray (map (\<lambda>_. - 1) messages), True)),
         get_topic_info = (\<lambda>cs. [- 1]),
         get_topic = (\<lambda>cs topic_id. None)\<rparr>\<rparr>"

definition offline_platform :: "bool platform" where
  "offline_platform = stub_platform\<lparr>SentenceTransformer := (\<lambda>name. Inl ''OSError'')\<rparr>"

section \<open>Properties of the mapper\<close>

lemma scan_items_first:
  "i < length items \<Longrightarrow> sublist (fst (items ! i)) l \<Longrightarrow>
   (\<forall>j<i. \<not> sublist (fst (items ! j)) l) \<Longrightarrow> scan_items items l = snd (items ! i)"
proof (induction items arbitrary: i)
  case Nil
  then show ?case by simp
next
  case (Cons kc items)
  obtain k c where kc: "kc = (k, c)" by (cases kc)
  show ?case
  proof (cases i)
    case 0
    with Cons.prems kc show ?thesis by simp
  next
    case (Suc n)
    from Cons.prems(3) Suc have "\<not> sublist (fst ((kc # items) ! 0)) l" by blast
    then have nk: "\<not> sublist k l" using kc by simp
    have "\<forall>j<n. \<not> sublist (fst (items ! j)) l"
    proof (intro allI impI)
      fix j assume "j < n"
      then have "Suc j < i" using Suc by simp
      with Cons.prems(3) have "\<not> sublist (fst ((kc # items) ! Suc j)) l" by blast
      then show "\<not> sublist (fst (items ! j)) l" by simp
    qed
    moreover have "n < length items" "sublist (fst (items ! n)) l"
      using Cons.prems(1,2) Suc by simp_all
    ultimately have "scan_items items l = snd (items ! n)"
      using Cons.IH by blast
    with nk kc Suc show ?thesis by simp
  qed
qed

lemma scan_items_none:
  "(\<forall>kc\<in>set items. \<not> sublist (fst kc) l) \<Longrightarrow> scan_items items l = ''GENRL''"
  by (induction items) auto


lemma lower_ascii: "list_all is_ascii s \<Longrightarrow> lower ul s = map lower_char s"
  by (simp add: lower_def)

lemma lower_beyond_ascii: "\<not> list_all is_ascii s \<Longrightarrow> lower ul s = ul s"
  by (simp add: lower_def)

lemma lower_char_upper:
  "c \<in> set ''ABCDEFGHIJKLMNOPQRSTUVWXYZ'' \<Longrightarrow>
   lower_char c \<in> set ''abcdefghijklmnopqrstuvwxyz'' \<and>
   (of_char (lower_char c) :: nat) = of_char c + 32"
  by (auto simp: lower_char_def)

lemma lower_char_other:
  "c \<notin> set ''ABCDEFGHIJKLMNOPQRSTUVWXYZ'' \<Longrightarrow> lower_char c = c"
  by (auto simp: lower_char_def)

lemma lower_pointwise:
  assumes "list_all is_ascii label" and "i < length label"
  shows "if label ! i \<in> set ''ABCDEFGHIJKLMNOPQRSTUVWXYZ''
         then lower ul label ! i \<in> set ''abcdefghijklmnopqrstuvwxyz'' \<and>
              (of_char (lower ul label ! i) :: nat) = of_char (label ! i) + 32
         else lower ul label ! i = label ! i"
proof -
  have eq: "lower ul label ! i = lower_char (label ! i)"
    using assms by (simp add: lower_ascii)
  show ?thesis
  proof (cases "label ! i \<in> set ''ABCDEFGHIJKLMNOPQRSTUVWXYZ''")
    case True
    from lower_char_upper [OF True] True show ?thesis unfolding eq by simp
  next
    case False
    from lower_char_other [OF False] False show ?thesis unfolding eq by simp
  qed
qed

lemma lower_example: "lower ul ''School CALL'' = ''school call''"
  by (simp add: lower_def is_ascii_def lower_char_def)

section \<open>Properties of the orchestrator\<close>

lemma scan_items_range:
  "scan_items items l = ''GENRL'' \<or> scan_items items l \<in> snd ` set items"
proof (induction items)
  case Nil
  then show ?case by simp
next
  case (Cons kc items)
  obtain k c where kc: "kc = (k, c)" by (cases kc)
  show ?case
  proof (cases "sublist k l")
    case True
    then show ?thesis using kc by simp
  next
    case False
    then have "scan_items (kc # items) l = scan_items items l" using kc by simp
    with Cons.IH show ?thesis by auto
  qed
qed

lemma map_to_code_in_set: "map_to_code ul label \<in> topic_code_set"
proof -
  have sub: "snd ` set TOPIC_MAPPING \<subseteq> topic_code_set"
    by (simp add: TOPIC_MAPPING_def topic_code_set_def)
  have dflt: "''GENRL'' \<in> topic_code_set"
    by (simp add: topic_code_set_def)
  have eq: "map_to_code ul label = scan_items TOPIC_MAPPING (lower ul label)"
    by (simp add: map_to_code_def)
  from scan_items_range [of TOPIC_MAPPING "lower ul label"] show ?thesis
  proof
    assume "scan_items TOPIC_MAPPING (lower ul label) = ''GENRL''"
    with eq dflt show ?thesis by simp
  next
    assume "scan_items TOPIC_MAPPING (lower ul label) \<in> snd ` set TOPIC_MAPPING"
    with sub eq show ?thesis by (metis subsetD)
  qed
qed

lemma map_to_code_empty: "map_to_code ul [] = ''GENRL''"
  by (simp add: map_to_code_def lower_def TOPIC_MAPPING_def)

lemma length_code_topics: "length (code_topics ul labels tps) = length tps"
  by (induction tps) simp_all

lemma nth_code_topics:
  "i < length tps \<Longrightarrow>
   code_topics ul labels tps ! i =
     (if tps ! i = - 1 then ''GENRL''
      else map_to_code ul (case map_of labels (tps ! i) of None \<Rightarrow> [] | Some l \<Rightarrow> l))"
proof (induction tps arbitrary: i)
  case Nil
  then show ?case by simp
next
  case (Cons t tps)
  then show ?case by (cases i) (simp_all add: Let_def)
qed

lemma map_of_label_rows:
  "map_of (label_rows g rows acc) k =
     (if k \<in> set rows \<and> k \<noteq> - 1 \<and> (\<exists>ws. g k = Some ws \<and> ws \<noteq> [])
      then Some (join ''_'' (map fst (take 3 (the (g k)))))
      else map_of acc k)"
proof (induction rows arbitrary: acc)
  case Nil
  then show ?case by simp
next
  case (Cons t rows)
  show ?case
  proof (cases "t = - 1")
    case True
    then show ?thesis using Cons.IH [of acc] by auto
  next
    case False
    show ?thesis
    proof (cases "g t")
      case None
      then show ?thesis using False Cons.IH [of acc] by auto
    next
      case (Some ws)
      show ?thesis
      proof (cases "ws = []")
        case True
        then show ?thesis using False Some Cons.IH [of acc] by auto
      next
        case nonempty: False
        then show ?thesis
          using False Some
            Cons.IH [of "AList.update t (join ''_'' (map fst (take 3 ws))) acc"]
          by (auto simp: update_conv')
      qed
    qed
  qed
qed

lemma fit_and_detect_small:
  "length ms < 2 \<Longrightarrow>
   fit_and_detect ul bt d ms =
     (case embedding_model d ms of
        Inl e \<Rightarrow> Inl e
      | Inr es \<Rightarrow>
          Inr (\<lparr>topics = replicate (length ms) (- 1), topic_labels = [],
                 topic_codes = replicate (length ms) ''GENRL'', embeddings = es\<rparr>, d))"
  by (simp add: fit_and_detect_def)

lemma fit_and_detect_large:
  "\<not> length ms < 2 \<Longrightarrow>
   fit_and_detect ul bt d ms =
     (case fit_transform bt (topic_model d) ms of
        Inl e \<Rightarrow> Inl e
      | Inr (tps, cs) \<Rightarrow>
          (case embedding_model d ms of
             Inl e \<Rightarrow> Inl e
           | Inr es \<Rightarrow>
               (case ids_tolist tps of
                  Inl e \<Rightarrow> Inl e
                | Inr topic_list \<Rightarrow>
                    Inr (\<lparr>topics = topic_list,
                          topic_labels = label_rows (get_topic bt cs) (get_topic_info bt cs) [],
                          topic_codes =
                            code_topics ul
                              (label_rows (get_topic bt cs) (get_topic_info bt cs) []) (ids tps),
                          embeddings = es\<rparr>,
                         d\<lparr>topic_model := cs, is_fitted := True\<rparr>))))"
  by (simp add: fit_and_detect_def Let_def split: sum.split prod.split)

lemma ids_tolist_Inr: "ids_tolist tps = Inr xs \<longleftrightarrow> tps = NdArray xs"
  by (cases tps) auto

lemma fit_and_detect_returns:
  assumes "fit_and_detect ul bt d ms = Inr (r, d')"
  shows "(length ms < 2 \<and> d' = d \<and>
          (\<exists>es. embedding_model d ms = Inr es \<and>
             r = \<lparr>topics = replicate (length ms) (- 1), topic_labels = [],
                  topic_codes = replicate (length ms) ''GENRL'', embeddings = es\<rparr>))
       \<or> (\<not> length ms < 2 \<and>
          (\<exists>tps cs es. fit_transform bt (topic_model d) ms = Inr (NdArray tps, cs) \<and>
             embedding_model d ms = Inr es \<and>
             d' = d\<lparr>topic_model := cs, is_fitted := True\<rparr> \<and>
             r = \<lparr>topics = tps,
                  topic_labels = label_rows (get_topic bt cs) (get_topic_info bt cs) [],
                  topic_codes =
                    code_topics ul (label_rows (get_topic bt cs) (get_topic_info bt cs) []) tps,
                  embeddings = es\<rparr>))"
proof (cases "length ms < 2")
  case True
  with assms show ?thesis
    by (simp add: fit_and_detect_small split: sum.splits)
next
  case False
  with assms show ?thesis
    by (auto simp: fit_and_detect_large ids_tolist_Inr split: sum.splits prod.splits)
qed

lemma fit_and_detect_list_topics:
  assumes "\<not> length ms < 2"
    and "fit_transform bt (topic_model d) ms = Inr (PyList tps, cs)"
    and "embedding_model d ms = Inr es"
  shows "fit_and_detect ul bt d ms = Inl ''AttributeError''"
  using assms by (simp add: fit_and_detect_large)

lemma scenario_run:
  "fit_and_detect ul scenario_clusterer stub_detector scenario_messages =
     Inr (\<lparr>topics = [0, 0, 1, - 1],
           topic_labels = [(0, ''kailah_school_daughter''), (1, ''rent_payment'')],
           topic_codes = [''KAILAH'', ''KAILAH'', ''MONEY'', ''GENRL''],
           embeddings = replicate 4 (replicate 384 0)\<rparr>,
          stub_detector\<lparr>topic_model := True, is_fitted := True\<rparr>)"
  by (simp add: fit_and_detect_def scenario_clusterer_def stub_detector_def stub_encoder_def
      scenario_messages_def map_to_code_def lower_def is_ascii_def lower_char_def
      TOPIC_MAPPING_def sublist_code(3) Let_def numeral_eq_Suc)

lemma bare_run:
  "fit_and_detect ul bare_clusterer stub_detector [''a'', ''b'', ''c''] =
     Inr (\<lparr>topics = [2, 2, - 1], topic_labels = [],
           topic_codes = [''GENRL'', ''GENRL'', ''GENRL''],
           embeddings = replicate 3 (replicate 384 0)\<rparr>,
          stub_detector\<lparr>topic_model := True, is_fitted := True\<rparr>)"
  by (simp add: fit_and_detect_def bare_clusterer_def stub_detector_def stub_encoder_def
      map_to_code_empty Let_def numeral_eq_Suc)

lemma map_to_code_scenario_first: "map_to_code ul ''kailah_school_daughter'' = ''KAILAH''"
  by (simp add: map_to_code_def lower_def is_ascii_def lower_char_def TOPIC_MAPPING_def sublist_code(3))
lemma map_to_code_scenario_second: "map_to_code ul ''rent_payment'' = ''MONEY''"
  by (simp add: map_to_code_def lower_def is_ascii_def lower_char_def TOPIC_MAPPING_def sublist_code(3))

lemma label_rows_named:
  assumes "k \<in> set rows" and "k \<noteq> - 1"
    and "map_option (map fst) (g k) = Some names" and "names \<noteq> []"
  shows "map_of (label_rows g rows []) k = Some (join ''_'' (take 3 names))"
proof -
  from assms(3) obtain ws where g: "g k = Some ws" and n: "names = map fst ws"
    by (cases "g k") auto
  from n assms(4) have ne: "ws \<noteq> []" by auto
  have "map fst (take 3 ws) = take 3 names" unfolding n by (simp add: take_map)
  with assms(1,2) g ne show ?thesis by (simp add: map_of_label_rows)
qed

lemma label_rows_absent:
  assumes "k \<notin> set rows \<or> k = - 1"
  shows "map_of (label_rows g rows []) k = None"
  using assms by (auto simp: map_of_label_rows)

text \<open>
  The scenario of the specification with the topic ids in a numpy array, and the rule
  that labels a listed cluster with its first three words.
\<close>

lemma scenario_with_array_topics:
  "(fit_transform bt (topic_model d) scenario_messages = Inr (NdArray [0, 0, 1, - 1], cs) \<and>
    set (get_topic_info bt cs) = {- 1, 0, 1} \<and>
    map_option (map fst) (get_topic bt cs 0) = Some [''kailah'', ''school'', ''daughter''] \<and>
    map_option (map fst) (get_topic bt cs 1) = Some [''rent'', ''payment''] \<and>
    embedding_model d scenario_messages = Inr es
    \<longrightarrow> (\<exists>r d'. fit_and_detect ul bt d scenario_messages = Inr (r, d') \<and>
           topics r = [0, 0, 1, - 1] \<and>
           map_of (topic_labels r) = [0 \<mapsto> ''kailah_school_daughter'', 1 \<mapsto> ''rent_payment''] \<and>
           topic_codes r = [''KAILAH'', ''KAILAH'', ''MONEY'', ''GENRL'']))
   \<and> (fit_and_detect ul btq dq msq = Inr (rq, dq') \<and> \<not> length msq < 2 \<and>
      k \<in> set (get_topic_info btq (topic_model dq')) \<and> k \<noteq> - 1 \<and>
      get_topic btq (topic_model dq') k = Some ws \<and> ws \<noteq> []
      \<longrightarrow> map_of (topic_labels rq) k = Some (join ''_'' (map fst (take 3 ws))))"
proof (intro conjI impI)
  assume h: "fit_transform bt (topic_model d) scenario_messages = Inr (NdArray [0, 0, 1, - 1], cs) \<and>
    set (get_topic_info bt cs) = {- 1, 0, 1} \<and>
    map_option (map fst) (get_topic bt cs 0) = Some [''kailah'', ''school'', ''daughter''] \<and>
    map_option (map fst) (get_topic bt cs 1) = Some [''rent'', ''payment''] \<and>
    embedding_model d scenario_messages = Inr es"
  define labels where "labels = label_rows (get_topic bt cs) (get_topic_info bt cs) []"
  from h have ft: "fit_transform bt (topic_model d) scenario_messages = Inr (NdArray [0, 0, 1, - 1], cs)"
    by blast
  from h have rows: "set (get_topic_info bt cs) = {- 1, 0, 1}" by blast
  from h have w0: "map_option (map fst) (get_topic bt cs 0) = Some [''kailah'', ''school'', ''daughter'']"
    by blast
  from h have w1: "map_option (map fst) (get_topic bt cs 1) = Some [''rent'', ''payment'']"
    by blast
  from h have em: "embedding_model d scenario_messages = Inr es" by blast
  have in0: "0 \<in> set (get_topic_info bt cs)" and in1: "1 \<in> set (get_topic_info bt cs)"
    unfolding rows by simp_all
  have l0: "map_of labels 0 = Some ''kailah_school_daughter''"
    unfolding labels_def
    using label_rows_named [where k = 0 and g = "get_topic bt cs", OF in0] w0 by simp
  have l1: "map_of labels 1 = Some ''rent_payment''"
    unfolding labels_def
    using label_rows_named [where k = 1 and g = "get_topic bt cs", OF in1] w1 by simp
  have lo: "map_of labels k' = None" if "k' \<noteq> 0" "k' \<noteq> 1" for k'
  proof -
    from that have "k' \<notin> set (get_topic_info bt cs) \<or> k' = - 1"
      unfolding rows by simp
    then show ?thesis unfolding labels_def by (rule label_rows_absent)
  qed
  have m: "map_of labels = [0 \<mapsto> ''kailah_school_daughter'', 1 \<mapsto> ''rent_payment'']"
  proof
    fix k' :: int
    consider "k' = 0" | "k' = 1" | "k' \<noteq> 0" "k' \<noteq> 1" by blast
    then show "map_of labels k' = [0 \<mapsto> ''kailah_school_daughter'', 1 \<mapsto> ''rent_payment''] k'"
    proof cases
      case 1
      then show ?thesis using l0 by simp
    next
      case 2
      then show ?thesis using l1 by simp
    next
      case 3
      then show ?thesis using lo [of k'] by simp
    qed
  qed
  have codes: "code_topics ul labels [0, 0, 1, - 1] = [''KAILAH'', ''KAILAH'', ''MONEY'', ''GENRL'']"
    by (simp add: l0 l1 Let_def map_to_code_scenario_first map_to_code_scenario_second)
  have big: "\<not> length scenario_messages < 2" by (simp add: scenario_messages_def)
  have "fit_and_detect ul bt d scenario_messages =
          Inr (\<lparr>topics = [0, 0, 1, - 1], topic_labels = labels,
                topic_codes = code_topics ul labels [0, 0, 1, - 1], embeddings = es\<rparr>,
               d\<lparr>topic_model := cs, is_fitted := True\<rparr>)"
    unfolding labels_def by (simp add: fit_and_detect_large [OF big] ft em)
  then show "\<exists>r d'. fit_and_detect ul bt d scenario_messages = Inr (r, d') \<and>
           topics r = [0, 0, 1, - 1] \<and>
           map_of (topic_labels r) = [0 \<mapsto> ''kailah_school_daughter'', 1 \<mapsto> ''rent_payment''] \<and>
           topic_codes r = [''KAILAH'', ''KAILAH'', ''MONEY'', ''GENRL'']"
    using m codes by simp
next
  assume h: "fit_and_detect ul btq dq msq = Inr (rq, dq') \<and> \<not> length msq < 2 \<and>
      k \<in> set (get_topic_info btq (topic_model dq')) \<and> k \<noteq> - 1 \<and>
      get_topic btq (topic_model dq') k = Some ws \<and> ws \<noteq> []"
  then have run: "fit_and_detect ul btq dq msq = Inr (rq, dq')" and big: "\<not> length msq < 2"
    and k: "k \<in> set (get_topic_info btq (topic_model dq'))" "k \<noteq> - 1"
    and g: "get_topic btq (topic_model dq') k = Some ws" "ws \<noteq> []"
    by blast+
  from fit_and_detect_returns [OF run] big obtain tps csq esq where
    dq': "dq' = dq\<lparr>topic_model := csq, is_fitted := True\<rparr>"
    and rq: "rq = \<lparr>topics = tps,
                  topic_labels = label_rows (get_topic btq csq) (get_topic_info btq csq) [],
                  topic_codes = code_topics ul (label_rows (get_topic btq csq) (get_topic_info btq csq) []) tps,
                  embeddings = esq\<rparr>"
    by blast
  from k g dq' show "map_of (topic_labels rq) k = Some (join ''_'' (map fst (take 3 ws)))"
    by (simp add: rq map_of_label_rows)
qed

section \<open>Properties of the command line and of embed\_text\<close>


lemma main_decoder_raises:
  "\<not> length argv < 2 \<Longrightarrow> json_loads env (argv ! 1) = DecoderRaises e \<Longrightarrow>
   main env argv =
     \<lparr>stdout = [], exit_status = 1, uncaught = Some e, steps = [JsonLoads (argv ! 1)]\<rparr>"
  by (simp add: main_def)


lemma main_list:
  "\<not> length argv < 2 \<Longrightarrow> json_loads env (argv ! 1) = Decoded (JArr ms) \<Longrightarrow>
   main env argv =
     (case TopicDetector_init env of
        Inl e \<Rightarrow>
          \<lparr>stdout = [], exit_status = 1, uncaught = Some e,
           steps = [JsonLoads (argv ! 1), NewTopicDetector]\<rparr>
      | Inr detector \<Rightarrow>
          (case fit_and_detect (unicode_lower env) (bertopic env) detector ms of
             Inl e \<Rightarrow>
               \<lparr>stdout = [], exit_status = 1, uncaught = Some e,
                steps = [JsonLoads (argv ! 1), NewTopicDetector, FitAndDetect ms]\<rparr>
           | Inr (result, _) \<Rightarrow>
               \<lparr>stdout = [ResultObject result], exit_status = 0, uncaught = None,
                steps = [JsonLoads (argv ! 1), NewTopicDetector, FitAndDetect ms]\<rparr>))"
  by (simp add: main_def)

lemma stub_loads_simps:
  "json_loads stub_platform ''oops'' =
     JSONDecodeError ''Expecting value: line 1 column 1 (char 0)''"
  "json_loads stub_platform ''{}'' = Decoded (JObj [])"
  "json_loads stub_platform ''[]'' = Decoded (JArr [])"
  "json_loads stub_platform ''[1]'' = Decoded (JArr [JInt 1])"
  "json_loads offline_platform ''[]'' = Decoded (JArr [])"
  by (simp_all add: stub_platform_def offline_platform_def stub_json_loads_def)


lemma embed_text_unavailable:
  "py_iter (requested_texts args) = Inr items \<Longrightarrow>
   embed_text ImportError None args =
     Inr (\<lparr>reply_embeddings = JArr (map (\<lambda>_. JArr (replicate 384 (JFloat 0))) items),
           reply_model = ''unavailable'', reply_dimensions = 384\<rparr>, None)"
  by (simp add: embed_text_def get_sentence_model_def Let_def)

lemma characters_examples:
  "characters ''ab'' = [''a'', ''b'']"
  "characters [CHR 0xE2, CHR 0x82, CHR 0xAC] = [[CHR 0xE2, CHR 0x82, CHR 0xAC]]"
  "characters ([CHR 0xC3, CHR 0xA9] @ ''t'' @ [CHR 0xC3, CHR 0xA9]) =
     [[CHR 0xC3, CHR 0xA9], ''t'', [CHR 0xC3, CHR 0xA9]]"
  by (simp_all add: is_continuation_def)

lemma embed_text_constructor_import_error:
  "py_iter (requested_texts args) = Inr items \<Longrightarrow>
   embed_text (Installed (\<lambda>name. RaisesImportError)) None args =
     Inr (\<lparr>reply_embeddings = JArr (map (\<lambda>_. JArr (replicate 384 (JFloat 0))) items),
           reply_model = ''unavailable'', reply_dimensions = 384\<rparr>, None)"
  by (simp add: embed_text_def get_sentence_model_def Let_def)

lemma main_model_unloadable:
  "\<not> length argv < 2 \<Longrightarrow> json_loads env (argv ! 1) = Decoded (JArr ms) \<Longrightarrow>
   SentenceTransformer env ''all-MiniLM-L6-v2'' = Inl e \<Longrightarrow>
   main env argv =
     \<lparr>stdout = [], exit_status = 1, uncaught = Some e,
      steps = [JsonLoads (argv ! 1), NewTopicDetector]\<rparr>"
  by (simp add: main_list TopicDetector_init_def)

section \<open>The claims\<close>

text \<open>
  C1. \<^verbatim>\<open>_map_to_code\<close> lowercases the label and returns the code of the first
  keyword, in the order of the dictionary, that occurs anywhere in the lowercased label
  as a contiguous substring; when no keyword occurs in it the result is \<^verbatim>\<open>GENRL\<close>.
  The lowercased label of an ASCII label has the same length, has the lowercase letter
  (32 further on) wherever the label has an uppercase letter and the label's own
  character elsewhere; for a label with a character beyond ASCII it is what the
  interpreter's case tables give.
\<close>

theorem map_to_code_first_match:
  "(\<forall>i<length TOPIC_MAPPING.
      sublist (fst (TOPIC_MAPPING ! i)) (lower ul label) \<and>
      (\<forall>j<i. \<not> sublist (fst (TOPIC_MAPPING ! j)) (lower ul label))
      \<longrightarrow> map_to_code ul label = snd (TOPIC_MAPPING ! i))
   \<and> ((\<forall>kc\<in>set TOPIC_MAPPING. \<not> sublist (fst kc) (lower ul label))
      \<longrightarrow> map_to_code ul label = ''GENRL'')
   \<and> (list_all is_ascii label
      \<longrightarrow> length (lower ul label) = length label \<and>
          (\<forall>i<length label.
             if label ! i \<in> set ''ABCDEFGHIJKLMNOPQRSTUVWXYZ''
             then lower ul label ! i \<in> set ''abcdefghijklmnopqrstuvwxyz'' \<and>
                  (of_char (lower ul label ! i) :: nat) = of_char (label ! i) + 32
             else lower ul label ! i = label ! i))
   \<and> (\<not> list_all is_ascii label \<longrightarrow> lower ul label = ul label)"
proof (intro conjI)
  show "\<forall>i<length TOPIC_MAPPING.
      sublist (fst (TOPIC_MAPPING ! i)) (lower ul label) \<and>
      (\<forall>j<i. \<not> sublist (fst (TOPIC_MAPPING ! j)) (lower ul label))
      \<longrightarrow> map_to_code ul label = snd (TOPIC_MAPPING ! i)"
    unfolding map_to_code_def Let_def
    using scan_items_first [of _ TOPIC_MAPPING "lower ul label"] by blast
  show "(\<forall>kc\<in>set TOPIC_MAPPING. \<not> sublist (fst kc) (lower ul label))
      \<longrightarrow> map_to_code ul label = ''GENRL''"
    unfolding map_to_code_def Let_def
    using scan_items_none [of TOPIC_MAPPING "lower ul label"] by blast
  show "list_all is_ascii label
      \<longrightarrow> length (lower ul label) = length label \<and>
          (\<forall>i<length label.
             if label ! i \<in> set ''ABCDEFGHIJKLMNOPQRSTUVWXYZ''
             then lower ul label ! i \<in> set ''abcdefghijklmnopqrstuvwxyz'' \<and>
                  (of_char (lower ul label ! i) :: nat) = of_char (label ! i) + 32
             else lower ul label ! i = label ! i)"
  proof
    assume asc: "list_all is_ascii label"
    have "length (lower ul label) = length label"
      using asc by (simp add: lower_ascii)
    moreover have "\<forall>i<length label.
             if label ! i \<in> set ''ABCDEFGHIJKLMNOPQRSTUVWXYZ''
             then lower ul label ! i \<in> set ''abcdefghijklmnopqrstuvwxyz'' \<and>
                  (of_char (lower ul label ! i) :: nat) = of_char (label ! i) + 32
             else lower ul label ! i = label ! i"
      using lower_pointwise [OF asc] by blast
    ultimately show "length (lower ul label) = length label \<and>
          (\<forall>i<length label.
             if label ! i \<in> set ''ABCDEFGHIJKLMNOPQRSTUVWXYZ''
             then lower ul label ! i \<in> set ''abcdefghijklmnopqrstuvwxyz'' \<and>
                  (of_char (lower ul label ! i) :: nat) = of_char (label ! i) + 32
             else lower ul label ! i = label ! i)"
      by (rule conjI)
  qed
  show "\<not> list_all is_ascii label \<longrightarrow> lower ul label = ul label"
    by (simp add: lower_beyond_ascii)
qed

text \<open>
  No keyword occurs in \<^verbatim>\<open>RECALL\<close> as it is written; lowercased, the keyword
  \<^verbatim>\<open>call\<close> (the ninth of the dictionary) is the first one found inside it. No keyword
  occurs in \<^verbatim>\<open>x\<close>. With case tables that lowercase \<^verbatim>\<open>KELVIN SIGN\<close> to
  \<^verbatim>\<open>k\<close>, the label made of that sign and \<^verbatim>\<open>ILL\<close> contains \<^verbatim>\<open>kill\<close>.
\<close>

theorem map_to_code_first_match_witness:
  "(list_all is_ascii ''RECALL'' \<and>
    list_all (\<lambda>kc. \<not> sublist (fst kc) ''RECALL'') TOPIC_MAPPING \<and>
    length (lower stub_lower ''RECALL'') = length ''RECALL'' \<and>
    lower stub_lower ''RECALL'' = ''recall'' \<and>
    8 < length TOPIC_MAPPING \<and>
    sublist (fst (TOPIC_MAPPING ! 8)) (lower stub_lower ''RECALL'') \<and>
    list_all (\<lambda>kc. \<not> sublist (fst kc) (lower stub_lower ''RECALL'')) (take 8 TOPIC_MAPPING) \<and>
    map_to_code stub_lower ''RECALL'' = ''CALLS'')
   \<and> (list_all (\<lambda>kc. \<not> sublist (fst kc) (lower stub_lower ''x'')) TOPIC_MAPPING \<and>
        map_to_code stub_lower ''x'' = ''GENRL'')
   \<and> (\<not> list_all is_ascii kelvin_ILL \<and>
        lower stub_lower kelvin_ILL = ''kill'' \<and>
        35 < length TOPIC_MAPPING \<and>
        sublist (fst (TOPIC_MAPPING ! 35)) (lower stub_lower kelvin_ILL) \<and>
        list_all (\<lambda>kc. \<not> sublist (fst kc) (lower stub_lower kelvin_ILL)) (take 35 TOPIC_MAPPING) \<and>
        map_to_code stub_lower kelvin_ILL = ''THREAT'')"
proof -
  note first = map_to_code_first_match [where ul = stub_lower, THEN conjunct1, rule_format]
  note none = map_to_code_first_match
    [where ul = stub_lower, THEN conjunct2, THEN conjunct1, THEN mp]
  note ascii = map_to_code_first_match
    [where ul = stub_lower, THEN conjunct2, THEN conjunct2, THEN conjunct1, THEN mp]
  note beyond_ascii = map_to_code_first_match
    [where ul = stub_lower, THEN conjunct2, THEN conjunct2, THEN conjunct2, THEN mp]
  have first_of: "\<forall>j<n. \<not> sublist (fst (TOPIC_MAPPING ! j)) l"
    if "list_all (\<lambda>kc. \<not> sublist (fst kc) l) (take n TOPIC_MAPPING)" "n < length TOPIC_MAPPING"
    for n l
  proof (intro allI impI)
    fix j :: nat assume j: "j < n"
    with that(2) have "take n TOPIC_MAPPING ! j \<in> set (take n TOPIC_MAPPING)"
      by (intro nth_mem) simp
    with that(1) have "\<not> sublist (fst (take n TOPIC_MAPPING ! j)) l"
      by (simp add: list_all_iff)
    with j show "\<not> sublist (fst (TOPIC_MAPPING ! j)) l" by simp
  qed
  have asc: "list_all is_ascii ''RECALL''"
    by (simp add: is_ascii_def)
  have raw: "list_all (\<lambda>kc. \<not> sublist (fst kc) ''RECALL'') TOPIC_MAPPING"
    by (simp add: TOPIC_MAPPING_def sublist_code(3))
  have len_eq: "length (lower stub_lower ''RECALL'') = length ''RECALL''"
    by (rule ascii [OF asc, THEN conjunct1])
  have low: "lower stub_lower ''RECALL'' = ''recall''"
    by (simp add: lower_def is_ascii_def lower_char_def)
  have len: "8 < length TOPIC_MAPPING"
    by (simp add: TOPIC_MAPPING_def)
  have hit: "sublist (fst (TOPIC_MAPPING ! 8)) (lower stub_lower ''RECALL'')"
    unfolding low by (simp add: TOPIC_MAPPING_def sublist_code(3))
  have before: "list_all (\<lambda>kc. \<not> sublist (fst kc) (lower stub_lower ''RECALL''))
      (take 8 TOPIC_MAPPING)"
    unfolding low by (simp add: TOPIC_MAPPING_def sublist_code(3))
  have code: "snd (TOPIC_MAPPING ! 8) = ''CALLS''"
    by (simp add: TOPIC_MAPPING_def)
  have "map_to_code stub_lower ''RECALL'' = snd (TOPIC_MAPPING ! 8)"
    by (rule first [OF len]) (intro conjI hit first_of [OF before len])
  then have r1: "map_to_code stub_lower ''RECALL'' = ''CALLS''"
    by (simp only: code)
  have miss: "list_all (\<lambda>kc. \<not> sublist (fst kc) (lower stub_lower ''x'')) TOPIC_MAPPING"
    by (simp add: TOPIC_MAPPING_def lower_def is_ascii_def lower_char_def sublist_code(3))
  then have miss': "\<forall>kc\<in>set TOPIC_MAPPING. \<not> sublist (fst kc) (lower stub_lower ''x'')"
    by (simp add: list_all_iff)
  have r2: "map_to_code stub_lower ''x'' = ''GENRL''"
    by (rule none [OF miss'])
  have beyond: "\<not> list_all is_ascii kelvin_ILL"
    by (simp add: kelvin_ILL_def is_ascii_def)
  have "lower stub_lower kelvin_ILL = stub_lower kelvin_ILL"
    by (rule beyond_ascii [OF beyond])
  then have klow: "lower stub_lower kelvin_ILL = ''kill''"
    by (simp add: stub_lower_def)
  have klen: "35 < length TOPIC_MAPPING"
    by (simp add: TOPIC_MAPPING_def)
  have khit: "sublist (fst (TOPIC_MAPPING ! 35)) (lower stub_lower kelvin_ILL)"
    unfolding klow by (simp add: TOPIC_MAPPING_def sublist_code(3))
  have kbefore: "list_all (\<lambda>kc. \<not> sublist (fst kc) (lower stub_lower kelvin_ILL))
      (take 35 TOPIC_MAPPING)"
    unfolding klow by (simp add: TOPIC_MAPPING_def sublist_code(3))
  have kcode: "snd (TOPIC_MAPPING ! 35) = ''THREAT''"
    by (simp add: TOPIC_MAPPING_def)
  have "map_to_code stub_lower kelvin_ILL = snd (TOPIC_MAPPING ! 35)"
    by (rule first [OF klen]) (intro conjI khit first_of [OF kbefore klen])
  then have r3: "map_to_code stub_lower kelvin_ILL = ''THREAT''"
    by (simp only: kcode)
  show ?thesis
    by (intro conjI asc raw len_eq low len hit before r1 miss r2 beyond klow klen khit kbefore r3)
qed

text \<open>
  C2. On a message list of length 0 or 1 whose embedding the embedder returns (one vector
  per message), \<^verbatim>\<open>fit_and_detect\<close> returns: every topic is \<open>-1\<close>, there is no
  label, every code is \<^verbatim>\<open>GENRL\<close>, the embeddings are the embedder's. The clusterer
  and the case tables play no part (any others give the same outcome) and the detector is left as
  it was.
\<close>

theorem small_batch_skips_clustering:
  assumes "length ms < 2"
    and "embedding_model d ms = Inr es"
    and "length es = length ms"
  shows "\<exists>r. fit_and_detect ul bt d ms = Inr (r, d) \<and>
           topics r = replicate (length ms) (- 1) \<and>
           topic_labels r = [] \<and>
           topic_codes r = replicate (length ms) ''GENRL'' \<and>
           embeddings r = es \<and> length (embeddings r) = length ms \<and>
           fit_and_detect ul' bt' d ms = fit_and_detect ul bt d ms"
  using assms by (simp add: fit_and_detect_small)

text \<open>A single message, with the stub embedder.\<close>

theorem small_batch_skips_clustering_witness:
  "length [''hello''] < 2 \<and>
   embedding_model stub_detector [''hello''] = Inr [replicate 384 0] \<and>
   length [replicate 384 (0::real)] = length [''hello''] \<and>
   (\<exists>r. fit_and_detect stub_lower scenario_clusterer stub_detector [''hello''] = Inr (r, stub_detector) \<and>
        topics r = [- 1] \<and> topic_labels r = [] \<and> topic_codes r = [''GENRL''] \<and>
        embeddings r = [replicate 384 0])"
proof -
  have a: "length [''hello''] < 2" by simp
  have b: "embedding_model stub_detector [''hello''] = Inr [replicate 384 0]"
    by (simp add: stub_detector_def stub_encoder_def)
  have c: "length [replicate 384 (0::real)] = length [''hello'']" by simp
  from small_batch_skips_clustering [OF a b c, where ul = stub_lower and bt = scenario_clusterer
      and ul' = stub_lower and bt' = scenario_clusterer]
  show ?thesis using a b c by auto
qed

text \<open>
  C3. The scenario of the specification expects \<^verbatim>\<open>fit_and_detect\<close> to return the
  topics \<open>[0, 0, 1, -1]\<close>, the labels of the two clusters and the codes. With a
  clusterer that hands back these topic ids the way BERTopic's \<^verbatim>\<open>fit_transform\<close>
  does, as a Python list, the call labels the clusters, codes the messages and embeds
  them, and then raises \<^verbatim>\<open>AttributeError\<close> at \<^verbatim>\<open>topics.tolist()\<close>: nothing is
  returned. (With the same ids in a numpy array the result is the expected one, lemma
  \<open>scenario_with_array_topics\<close>.)
\<close>

theorem scenario_raises_on_list_topics:
  "fit_transform list_clusterer (topic_model stub_detector) scenario_messages =
     Inr (PyList [0, 0, 1, - 1], True) \<and>
   map_option (map fst) (get_topic list_clusterer True 0) =
     Some [''kailah'', ''school'', ''daughter''] \<and>
   map_option (map fst) (get_topic list_clusterer True 1) = Some [''rent'', ''payment''] \<and>
   embedding_model stub_detector scenario_messages = Inr (replicate 4 (replicate 384 0)) \<and>
   fit_and_detect ul list_clusterer stub_detector scenario_messages = Inl ''AttributeError''"
proof -
  have big: "\<not> length scenario_messages < 2" by (simp add: scenario_messages_def)
  have ft: "fit_transform list_clusterer (topic_model stub_detector) scenario_messages =
     Inr (PyList [0, 0, 1, - 1], True)"
    by (simp add: list_clusterer_def)
  have w0: "map_option (map fst) (get_topic list_clusterer True 0) =
     Some [''kailah'', ''school'', ''daughter'']"
    by (simp add: list_clusterer_def scenario_clusterer_def)
  have w1: "map_option (map fst) (get_topic list_clusterer True 1) = Some [''rent'', ''payment'']"
    by (simp add: list_clusterer_def scenario_clusterer_def)
  have em: "embedding_model stub_detector scenario_messages = Inr (replicate 4 (replicate 384 0))"
    by (simp add: stub_detector_def stub_encoder_def scenario_messages_def numeral_eq_Suc)
  have run: "fit_and_detect ul list_clusterer stub_detector scenario_messages = Inl ''AttributeError''"
    by (rule fit_and_detect_list_topics [OF big ft em])
  show ?thesis by (intro conjI ft w0 w1 em run)
qed

text \<open>
  C4. Whenever \<^verbatim>\<open>fit_and_detect\<close> returns, in either branch, there is one code per
  topic id and every code belongs to the Topic Code set; and when the clusterer returns
  one topic id per message, as its contract says, both lists are as long as the message
  list.
\<close>

theorem result_lengths_and_codes:
  assumes "fit_and_detect ul bt d ms = Inr (r, d')"
  shows "length (topic_codes r) = length (topics r) \<and>
         set (topic_codes r) \<subseteq> topic_code_set \<and>
         ((\<forall>tps cs. fit_transform bt (topic_model d) ms = Inr (tps, cs) \<longrightarrow>
              length (ids tps) = length ms)
          \<longrightarrow> length (topics r) = length ms \<and> length (topic_codes r) = length ms)"
proof -
  have dflt: "''GENRL'' \<in> topic_code_set" by (simp add: topic_code_set_def)
  from fit_and_detect_returns [OF assms] show ?thesis
  proof (elim disjE conjE exE)
    fix es
    assume "r = \<lparr>topics = replicate (length ms) (- 1), topic_labels = [],
                  topic_codes = replicate (length ms) ''GENRL'', embeddings = es\<rparr>"
    with dflt show ?thesis by auto
  next
    fix tps cs es
    assume ft: "fit_transform bt (topic_model d) ms = Inr (NdArray tps, cs)"
      and r: "r = \<lparr>topics = tps,
                  topic_labels = label_rows (get_topic bt cs) (get_topic_info bt cs) [],
                  topic_codes = code_topics ul (label_rows (get_topic bt cs) (get_topic_info bt cs) []) tps,
                  embeddings = es\<rparr>"
    have "set (topic_codes r) \<subseteq> topic_code_set"
    proof
      fix c assume "c \<in> set (topic_codes r)"
      then obtain i where i: "i < length tps" and c: "c = topic_codes r ! i"
        using r by (auto simp: in_set_conv_nth length_code_topics)
      show "c \<in> topic_code_set"
        using i c r dflt by (simp add: nth_code_topics map_to_code_in_set)
    qed
    with ft r show ?thesis by (simp add: length_code_topics)
  qed
qed

text \<open>The scenario of the specification, run on the stubs.\<close>

theorem result_lengths_and_codes_witness:
  "fit_and_detect stub_lower scenario_clusterer stub_detector scenario_messages =
     Inr (\<lparr>topics = [0, 0, 1, - 1],
           topic_labels = [(0, ''kailah_school_daughter''), (1, ''rent_payment'')],
           topic_codes = [''KAILAH'', ''KAILAH'', ''MONEY'', ''GENRL''],
           embeddings = replicate 4 (replicate 384 0)\<rparr>,
          stub_detector\<lparr>topic_model := True, is_fitted := True\<rparr>) \<and>
   fit_transform scenario_clusterer (topic_model stub_detector) scenario_messages =
     Inr (NdArray [0, 0, 1, - 1], True) \<and>
   length (ids (NdArray [0, 0, 1, - 1])) = length scenario_messages \<and>
   length [''KAILAH'', ''KAILAH'', ''MONEY'', ''GENRL''] = length scenario_messages \<and>
   set [''KAILAH'', ''KAILAH'', ''MONEY'', ''GENRL''] \<subseteq> topic_code_set"
proof -
  have ft: "fit_transform scenario_clusterer (topic_model stub_detector) scenario_messages =
     Inr (NdArray [0, 0, 1, - 1], True)"
    by (simp add: scenario_clusterer_def)
  have len: "length (ids (NdArray [0, 0, 1, - 1])) = length scenario_messages"
    by (simp add: scenario_messages_def)
  from ft len
  have c: "\<forall>tps cs. fit_transform scenario_clusterer (topic_model stub_detector) scenario_messages
              = Inr (tps, cs) \<longrightarrow> length (ids tps) = length scenario_messages"
    by simp
  from result_lengths_and_codes [OF scenario_run] c
  have "length [''KAILAH'', ''KAILAH'', ''MONEY'', ''GENRL''] = length scenario_messages"
    and "set [''KAILAH'', ''KAILAH'', ''MONEY'', ''GENRL''] \<subseteq> topic_code_set"
    by simp_all
  with ft len scenario_run show ?thesis by blast
qed

text \<open>
  C5. Whenever \<^verbatim>\<open>fit_and_detect\<close> returns and the topic id at position \<open>i\<close> is the
  outlier marker \<open>-1\<close>, the code at position \<open>i\<close> is \<^verbatim>\<open>GENRL\<close>, whatever the
  labels of the clusters are.
\<close>

theorem outlier_gets_GENRL:
  assumes "fit_and_detect ul bt d ms = Inr (r, d')"
    and "i < length (topics r)"
    and "topics r ! i = - 1"
  shows "i < length (topic_codes r) \<and> topic_codes r ! i = ''GENRL''"
  using fit_and_detect_returns [OF assms(1)] assms(2,3)
  by (auto simp: length_code_topics nth_code_topics)

text \<open>The fourth message of the scenario is the outlier.\<close>

theorem outlier_gets_GENRL_witness:
  "fit_and_detect stub_lower scenario_clusterer stub_detector scenario_messages =
     Inr (\<lparr>topics = [0, 0, 1, - 1],
           topic_labels = [(0, ''kailah_school_daughter''), (1, ''rent_payment'')],
           topic_codes = [''KAILAH'', ''KAILAH'', ''MONEY'', ''GENRL''],
           embeddings = replicate 4 (replicate 384 0)\<rparr>,
          stub_detector\<lparr>topic_model := True, is_fitted := True\<rparr>) \<and>
   (3::nat) < length [0, 0, 1, - 1 :: int] \<and> [0, 0, 1, - 1 :: int] ! 3 = - 1 \<and>
   [''KAILAH'', ''KAILAH'', ''MONEY'', ''GENRL''] ! 3 = ''GENRL''"
  using outlier_gets_GENRL [OF scenario_run [where ul = stub_lower], where i = 3]
    scenario_run [where ul = stub_lower] by simp




text \<open>
  C7, as stated: when the embedding backend cannot be loaded the call does not fail.
  \<^verbatim>\<open>TopicDetector.__init__\<close> has no guard around the construction of the embedding
  model: on the offline platform \<^verbatim>\<open>main\<close> ends with the exception uncaught, prints
  nothing and exits with status 1.
\<close>

theorem detector_does_not_recover_counterexample:
  "SentenceTransformer offline_platform ''all-MiniLM-L6-v2'' = Inl ''OSError'' \<and>
   json_loads offline_platform ([''topic_detector.py'', ''[]''] ! 1) = Decoded (JArr []) \<and>
   main offline_platform [''topic_detector.py'', ''[]''] =
     \<lparr>stdout = [], exit_status = 1, uncaught = Some ''OSError'',
      steps = [JsonLoads ''[]'', NewTopicDetector]\<rparr>"
proof -
  have n: "\<not> length [''topic_detector.py'', ''[]''] < 2" by simp
  have l: "json_loads offline_platform ([''topic_detector.py'', ''[]''] ! 1) = Decoded (JArr [])"
    by (simp add: stub_loads_simps)
  have x: "SentenceTransformer offline_platform ''all-MiniLM-L6-v2'' = Inl ''OSError''"
    by (simp add: offline_platform_def)
  have m: "main offline_platform [''topic_detector.py'', ''[]''] =
     \<lparr>stdout = [], exit_status = 1, uncaught = Some ''OSError'',
      steps = [JsonLoads ''[]'', NewTopicDetector]\<rparr>"
    using main_model_unloadable [OF n l x] by simp
  show ?thesis by (intro conjI x l m)
qed

text \<open>
  C7, amended. The recovery exists in \<^verbatim>\<open>embed_text\<close> of \<^verbatim>\<open>nlp_runner.py\<close>: when
  the import of sentence-transformers fails and the requested texts can be iterated, the
  call returns one vector of 384 zeros per text, the model \<^verbatim>\<open>unavailable\<close> and the
  dimension 384. The topic detector has no such recovery: when its embedding model cannot
  be constructed, \<^verbatim>\<open>main\<close> ends with that exception uncaught, nothing printed, exit
  status 1.
\<close>

theorem placeholder_embeddings_only_in_embed_text:
  "(py_iter (requested_texts args) = Inr items
    \<longrightarrow> embed_text ImportError None args =
          Inr (\<lparr>reply_embeddings = JArr (map (\<lambda>_. JArr (replicate 384 (JFloat 0))) items),
                reply_model = ''unavailable'', reply_dimensions = 384\<rparr>, None))
   \<and> (\<not> length argv < 2 \<and> json_loads env (argv ! 1) = Decoded (JArr ms) \<and>
      SentenceTransformer env ''all-MiniLM-L6-v2'' = Inl e
      \<longrightarrow> main env argv =
            \<lparr>stdout = [], exit_status = 1, uncaught = Some e,
             steps = [JsonLoads (argv ! 1), NewTopicDetector]\<rparr>)"
  using embed_text_unavailable main_model_unloadable by blast

text \<open>Two texts without the package; the offline platform with an empty message list.\<close>

theorem placeholder_embeddings_only_in_embed_text_witness:
  "py_iter (requested_texts [''texts'' \<mapsto> JArr [JStr ''a'', JStr ''b'']]) =
     Inr [JStr ''a'', JStr ''b''] \<and>
   embed_text ImportError None [''texts'' \<mapsto> JArr [JStr ''a'', JStr ''b'']] =
     Inr (\<lparr>reply_embeddings =
             JArr [JArr (replicate 384 (JFloat 0)), JArr (replicate 384 (JFloat 0))],
           reply_model = ''unavailable'', reply_dimensions = 384\<rparr>, None) \<and>
   \<not> length [''topic_detector.py'', ''[]'', ''-v''] < 2 \<and>
   json_loads offline_platform ([''topic_detector.py'', ''[]'', ''-v''] ! 1) = Decoded (JArr []) \<and>
   SentenceTransformer offline_platform ''all-MiniLM-L6-v2'' = Inl ''OSError'' \<and>
   main offline_platform [''topic_detector.py'', ''[]'', ''-v''] =
     \<lparr>stdout = [], exit_status = 1, uncaught = Some ''OSError'',
      steps = [JsonLoads ''[]'', NewTopicDetector]\<rparr>"
proof -
  have a: "py_iter (requested_texts [''texts'' \<mapsto> JArr [JStr ''a'', JStr ''b'']]) =
     Inr [JStr ''a'', JStr ''b'']"
    by (simp add: requested_texts_def)
  have b1: "\<not> length [''topic_detector.py'', ''[]'', ''-v''] < 2" by simp
  have b2: "json_loads offline_platform ([''topic_detector.py'', ''[]'', ''-v''] ! 1) = Decoded (JArr [])"
    by (simp add: stub_loads_simps)
  have b3: "SentenceTransformer offline_platform ''all-MiniLM-L6-v2'' = Inl ''OSError''"
    by (simp add: offline_platform_def)
  note T = placeholder_embeddings_only_in_embed_text
    [where args = "[''texts'' \<mapsto> JArr [JStr ''a'', JStr ''b'']]"
       and items = "[JStr ''a'', JStr ''b'']"
       and argv = "[''topic_detector.py'', ''[]'', ''-v'']" and env = offline_platform
       and ms = "[]" and e = "''OSError''"]
  from T a have r1: "embed_text ImportError None [''texts'' \<mapsto> JArr [JStr ''a'', JStr ''b'']] =
     Inr (\<lparr>reply_embeddings =
             JArr [JArr (replicate 384 (JFloat 0)), JArr (replicate 384 (JFloat 0))],
           reply_model = ''unavailable'', reply_dimensions = 384\<rparr>, None)"
    by simp
  from T b1 b2 b3 have r2: "main offline_platform [''topic_detector.py'', ''[]'', ''-v''] =
     \<lparr>stdout = [], exit_status = 1, uncaught = Some ''OSError'',
      steps = [JsonLoads ''[]'', NewTopicDetector]\<rparr>"
    by simp
  show ?thesis by (intro conjI a r1 b1 b2 b3 r2)
qed

text \<open>
  C8. With a clusterer whose fit of a message list does not depend on the state the
  instance was left in (a deterministic stub), a second call of \<^verbatim>\<open>fit_and_detect\<close>
  on the same detector and the same messages returns the same topics, labels, codes and
  embeddings as the first, and leaves the detector as the first call left it.
\<close>

theorem fit_and_detect_repeatable:
  assumes "\<forall>cs cs'. fit_transform bt cs ms = fit_transform bt cs' ms"
    and "fit_and_detect ul bt d ms = Inr (r, d')"
  shows "fit_and_detect ul bt d' ms = Inr (r, d')"
proof -
  from fit_and_detect_returns [OF assms(2)] show ?thesis
  proof (elim disjE conjE exE)
    assume "d' = d"
    with assms(2) show ?thesis by simp
  next
    fix tps cs es
    assume big: "\<not> length ms < 2"
      and ft: "fit_transform bt (topic_model d) ms = Inr (NdArray tps, cs)"
      and em: "embedding_model d ms = Inr es"
      and d': "d' = d\<lparr>topic_model := cs, is_fitted := True\<rparr>"
      and r: "r = \<lparr>topics = tps,
                  topic_labels = label_rows (get_topic bt cs) (get_topic_info bt cs) [],
                  topic_codes = code_topics ul (label_rows (get_topic bt cs) (get_topic_info bt cs) []) tps,
                  embeddings = es\<rparr>"
    from assms(1) ft have "fit_transform bt (topic_model d') ms = Inr (NdArray tps, cs)"
      by metis
    moreover have "embedding_model d' ms = Inr es" using em d' by simp
    moreover have "d'\<lparr>topic_model := cs, is_fitted := True\<rparr> = d'" using d' by simp
    ultimately show ?thesis using big r
      by (simp add: fit_and_detect_large)
  qed
qed

text \<open>The scenario, run twice on the same detector.\<close>

theorem fit_and_detect_repeatable_witness:
  "(\<forall>cs cs'. fit_transform scenario_clusterer cs scenario_messages =
       fit_transform scenario_clusterer cs' scenario_messages) \<and>
   fit_and_detect stub_lower scenario_clusterer stub_detector scenario_messages =
     Inr (\<lparr>topics = [0, 0, 1, - 1],
           topic_labels = [(0, ''kailah_school_daughter''), (1, ''rent_payment'')],
           topic_codes = [''KAILAH'', ''KAILAH'', ''MONEY'', ''GENRL''],
           embeddings = replicate 4 (replicate 384 0)\<rparr>,
          stub_detector\<lparr>topic_model := True, is_fitted := True\<rparr>) \<and>
   fit_and_detect stub_lower scenario_clusterer (stub_detector\<lparr>topic_model := True, is_fitted := True\<rparr>)
       scenario_messages =
     Inr (\<lparr>topics = [0, 0, 1, - 1],
           topic_labels = [(0, ''kailah_school_daughter''), (1, ''rent_payment'')],
           topic_codes = [''KAILAH'', ''KAILAH'', ''MONEY'', ''GENRL''],
           embeddings = replicate 4 (replicate 384 0)\<rparr>,
          stub_detector\<lparr>topic_model := True, is_fitted := True\<rparr>)"
proof -
  have det: "\<forall>cs cs'. fit_transform scenario_clusterer cs scenario_messages =
       fit_transform scenario_clusterer cs' scenario_messages"
    by (simp add: scenario_clusterer_def)
  from fit_and_detect_repeatable [OF det scenario_run] det scenario_run
  show ?thesis by blast
qed

text \<open>
  C9. When \<^verbatim>\<open>fit_and_detect\<close> returns and a cluster id other than \<open>-1\<close> is
  assigned to some message while the fitted clusterer reports \<^verbatim>\<open>False\<close> or an empty
  word list for it, the cluster has no entry in \<^verbatim>\<open>topic_labels\<close> and every message
  assigned to it gets the code \<^verbatim>\<open>GENRL\<close>.
\<close>

theorem unlabelled_cluster_gets_GENRL:
  assumes "fit_and_detect ul bt d ms = Inr (r, d')"
    and "k \<in> set (topics r)"
    and "k \<noteq> - 1"
    and "get_topic bt (topic_model d') k = None \<or> get_topic bt (topic_model d') k = Some []"
  shows "map_of (topic_labels r) k = None \<and>
         (\<forall>i<length (topics r). topics r ! i = k \<longrightarrow> topic_codes r ! i = ''GENRL'')"
proof -
  from fit_and_detect_returns [OF assms(1)] show ?thesis
  proof (elim disjE conjE exE)
    fix es
    assume "r = \<lparr>topics = replicate (length ms) (- 1), topic_labels = [],
                  topic_codes = replicate (length ms) ''GENRL'', embeddings = es\<rparr>"
    with assms(2,3) show ?thesis by simp
  next
    fix tps cs es
    assume d': "d' = d\<lparr>topic_model := cs, is_fitted := True\<rparr>"
      and r: "r = \<lparr>topics = tps,
                  topic_labels = label_rows (get_topic bt cs) (get_topic_info bt cs) [],
                  topic_codes = code_topics ul (label_rows (get_topic bt cs) (get_topic_info bt cs) []) tps,
                  embeddings = es\<rparr>"
    from assms(4) d' have falsy: "get_topic bt cs k = None \<or> get_topic bt cs k = Some []"
      by simp
    then have none: "map_of (label_rows (get_topic bt cs) (get_topic_info bt cs) []) k = None"
      by (auto simp: map_of_label_rows)
    have "\<forall>i<length tps. tps ! i = k \<longrightarrow>
            code_topics ul (label_rows (get_topic bt cs) (get_topic_info bt cs) []) tps ! i = ''GENRL''"
      using none assms(3) by (simp add: nth_code_topics map_to_code_empty)
    with none r show ?thesis by simp
  qed
qed

text \<open>A clusterer that puts two messages into cluster 2 and reports no words for it.\<close>

theorem unlabelled_cluster_gets_GENRL_witness:
  "fit_and_detect stub_lower bare_clusterer stub_detector [''a'', ''b'', ''c''] =
     Inr (\<lparr>topics = [2, 2, - 1], topic_labels = [],
           topic_codes = [''GENRL'', ''GENRL'', ''GENRL''],
           embeddings = replicate 3 (replicate 384 0)\<rparr>,
          stub_detector\<lparr>topic_model := True, is_fitted := True\<rparr>) \<and>
   (2::int) \<in> set [2, 2, - 1] \<and> (2::int) \<noteq> - 1 \<and>
   get_topic bare_clusterer True 2 = Some [] \<and>
   map_of ([] :: (int \<times> string) list) 2 = None \<and>
   [''GENRL'', ''GENRL'', ''GENRL''] ! 0 = ''GENRL'' \<and>
   [''GENRL'', ''GENRL'', ''GENRL''] ! 1 = ''GENRL''"
proof -
  have k: "(2::int) \<in> set (topics \<lparr>topics = [2, 2, - 1], topic_labels = [],
           topic_codes = [''GENRL'', ''GENRL'', ''GENRL''],
           embeddings = replicate 3 (replicate 384 0)\<rparr>)" by simp
  have ne: "(2::int) \<noteq> - 1" by simp
  have gt: "get_topic bare_clusterer True 2 = Some []"
    by (simp add: bare_clusterer_def)
  then have falsy: "get_topic bare_clusterer
        (topic_model (stub_detector\<lparr>topic_model := True, is_fitted := True\<rparr>)) 2 = None \<or>
      get_topic bare_clusterer
        (topic_model (stub_detector\<lparr>topic_model := True, is_fitted := True\<rparr>)) 2 = Some []"
    by simp
  from unlabelled_cluster_gets_GENRL [OF bare_run k ne falsy]
  have "[''GENRL'', ''GENRL'', ''GENRL''] ! 0 = ''GENRL''"
    and "[''GENRL'', ''GENRL'', ''GENRL''] ! 1 = ''GENRL''"
    and "map_of ([] :: (int \<times> string) list) 2 = None"
    by simp_all
  with bare_run gt show ?thesis by simp
qed

text \<open>
  C10. Called with no argument after the program name, \<^verbatim>\<open>main\<close> prints the JSON
  error object \<^verbatim>\<open>No messages provided\<close> and exits with status 1, having called neither
  the decoder nor the detector's constructor.
\<close>

theorem no_argument_exits_early:
  "length argv < 2 \<Longrightarrow>
   main env argv =
     \<lparr>stdout = [ErrorObject ''No messages provided''], exit_status = 1,
      uncaught = None, steps = []\<rparr>"
  by (simp add: main_def)

text \<open>Only the program name on the command line.\<close>

theorem no_argument_exits_early_witness:
  "length [''topic_detector.py''] < 2 \<and>
   main stub_platform [''topic_detector.py''] =
     \<lparr>stdout = [ErrorObject ''No messages provided''], exit_status = 1,
      uncaught = None, steps = []\<rparr>"
proof -
  have a: "length [''topic_detector.py''] < 2" by simp
  from no_argument_exits_early [OF a, where env = stub_platform] a show ?thesis by blast
qed

end
